theory Spec2Isabelle
  imports Main "HOL-Library.AList"
begin

section \<open>Values, errors and completion signals\<close>

text \<open>
  The repository is written in TypeScript. Its values are modelled by a small JSON-like
  datatype; an absent property (\<open>undefined\<close>) is a key that an association list does
  not bind.
\<close>

datatype jsval =
    JNull
  | JBool bool
  | JNum int
  | JStr string
  | JArr "jsval list"
  | JObj "(string \<times> jsval) list"

type_synonym fields = "(string \<times> jsval) list"

text \<open>JavaScript truthiness, as the operators \<open>||\<close>, \<open>&&\<close> and \<open>if\<close> read a value.\<close>

fun truthy :: "jsval \<Rightarrow> bool" where
  "truthy JNull = False"
| "truthy (JBool b) = b"
| "truthy (JNum n) = (n \<noteq> 0)"
| "truthy (JStr s) = (s \<noteq> [])"
| "truthy (JArr xs) = True"
| "truthy (JObj fs) = True"

text \<open>Truthiness of a property that may be absent, and of a string that may be null.\<close>

definition truthy_opt :: "jsval option \<Rightarrow> bool" where
  "truthy_opt v = (case v of None \<Rightarrow> False | Some x \<Rightarrow> truthy x)"

definition truthy_str :: "string option \<Rightarrow> bool" where
  "truthy_str s = (case s of None \<Rightarrow> False | Some t \<Rightarrow> t \<noteq> [])"

text \<open>
  The errors the code creates or passes on. \<open>ConfigException\<close> and
  \<open>ConnectionException\<close> carry the correlation id, the code and the message;
  \<open>withCause\<close> attaches the original error. \<open>TypeError\<close> is what the runtime raises
  when a property of \<open>null\<close> is read or a missing callback is called.
  \<open>DriverError\<close> stands for an error produced by an external collaborator.
\<close>

datatype error =
    ConfigException string string string
  | ConnectionException string string string "error option"
  | Error string
  | TypeError
  | DriverError string

fun withCause :: "error \<Rightarrow> error \<Rightarrow> error" where
  "withCause (ConnectionException cid code msg c) cause = ConnectionException cid code msg (Some cause)"
| "withCause e cause = e"

text \<open>
  Every operation completes through a callback \<open>(err, result)\<close>. An operation either
  calls it, returns without calling anything (no callback was given), or throws.
\<close>

datatype 'a outcome =
    Called "error option" "'a option"
  | NotCalled
  | Thrown error

section \<open>MongoDbConnectionResolver\<close>

text \<open>
  \<open>ConnectionParams\<close> and \<open>CredentialParams\<close> are classes of an external package.
  A descriptor is modelled by what its accessors return to the resolver:
  \<open>getUri()\<close>, \<open>getHost()\<close>, \<open>getPort()\<close>, \<open>getAsNullableString("database")\<close>, and the
  key/value pairs of the underlying string map in key order.
\<close>

record ConnectionParams =
  getUri :: "string option"
  getHost :: "string option"
  getPort :: "int option"
  getDatabase :: "string option"
  conn_entries :: "(string \<times> string option) list"

record CredentialParams =
  getUsername :: "string option"
  getPassword :: "string option"
  cred_entries :: "(string \<times> string option) list"

text \<open>
  How the accessors of the external package read the string map: \<open>get(key)\<close> returns
  \<open>this[key] || null\<close>, so that an entry that is missing or empty is read as null.
  \<open>getUri()\<close> and \<open>getAsNullableString("database")\<close> read the entries \<open>uri\<close> and
  \<open>database\<close>, \<open>getHost()\<close> reads \<open>host\<close> and then \<open>ip\<close>, and \<open>getPort()\<close> returns
  a number, 0 when there is no entry \<open>port\<close>.
\<close>

definition read_entry :: "(string \<times> string option) list \<Rightarrow> string \<Rightarrow> string option" where
  "read_entry entries key =
     (case map_of entries key of
        Some (Some s) \<Rightarrow> (if s = [] then None else Some s)
      | _ \<Rightarrow> None)"

definition reads_its_entries :: "ConnectionParams \<Rightarrow> bool" where
  "reads_its_entries c =
     (getUri c = read_entry (conn_entries c) ''uri''
      \<and> getDatabase c = read_entry (conn_entries c) ''database''
      \<and> getHost c = (case read_entry (conn_entries c) ''host'' of
                       Some h \<Rightarrow> Some h
                     | None \<Rightarrow> read_entry (conn_entries c) ''ip'')
      \<and> (if read_entry (conn_entries c) ''port'' = None then getPort c = Some 0
          else getPort c \<noteq> None))"

definition validateConnection :: "string \<Rightarrow> ConnectionParams \<Rightarrow> error option" where
  "validateConnection correlationId connection =
     (if getUri connection \<noteq> None then None
      else if getHost connection = None then
        Some (ConfigException correlationId ''NO_HOST'' ''Connection host is not set'')
      else if getPort connection = Some 0 then
        Some (ConfigException correlationId ''NO_PORT'' ''Connection port is not set'')
      else if getDatabase connection = None then
        Some (ConfigException correlationId ''NO_DATABASE'' ''Connection database is not set'')
      else None)"

text \<open>The loop of \<open>validateConnections\<close>: the first error ends it.\<close>

fun validate_each :: "string \<Rightarrow> ConnectionParams list \<Rightarrow> error option" where
  "validate_each correlationId [] = None"
| "validate_each correlationId (connection # rest) =
     (case validateConnection correlationId connection of
        Some e \<Rightarrow> Some e
      | None \<Rightarrow> validate_each correlationId rest)"

definition validateConnections :: "string \<Rightarrow> ConnectionParams list option \<Rightarrow> error option" where
  "validateConnections correlationId connections =
     (case connections of
        None \<Rightarrow> Some (ConfigException correlationId ''NO_CONNECTION'' ''Database connection is not set'')
      | Some [] \<Rightarrow> Some (ConfigException correlationId ''NO_CONNECTION'' ''Database connection is not set'')
      | Some cs \<Rightarrow> validate_each correlationId cs)"

subsection \<open>Numbers as text\<close>

text \<open>The decimal digits of an integer.\<close>

definition digit_char :: "nat \<Rightarrow> char" where
  "digit_char d = ''0123456789'' ! (d mod 10)"

fun nat_text :: "nat \<Rightarrow> string" where
  "nat_text n = (if n < 10 then [digit_char n] else nat_text (n div 10) @ [digit_char (n mod 10)])"

declare nat_text.simps [simp del]

definition int_text :: "int \<Rightarrow> string" where
  "int_text i = (if i < 0 then CHR ''-'' # nat_text (nat (- i)) else nat_text (nat i))"

text \<open>
  A number that is a safe integer is appended in full decimal. The text of any other
  number (digits rounded to the nearest double, exponent form from 1e21 on) is the
  runtime's: it is the parameter \<open>large_text\<close> of the model.
\<close>

definition number_text :: "(int \<Rightarrow> string) \<Rightarrow> int \<Rightarrow> string" where
  "number_text large_text n =
     (if - 9007199254740991 \<le> n \<and> n \<le> 9007199254740991 then int_text n else large_text n)"

subsection \<open>composeUri\<close>

text \<open>First loop: the first truthy uri is returned at once.\<close>

fun first_uri :: "ConnectionParams list \<Rightarrow> string option" where
  "first_uri [] = None"
| "first_uri (connection # rest) =
     (if truthy_str (getUri connection) then getUri connection else first_uri rest)"

text \<open>
  Second loop. \<open>host + (port == null ? '' : ':' + port)\<close>: a null host is appended as
  the text \<open>null\<close>.
\<close>

definition host_port :: "(int \<Rightarrow> string) \<Rightarrow> ConnectionParams \<Rightarrow> string" where
  "host_port large_text connection =
     (case getHost connection of None \<Rightarrow> ''null'' | Some h \<Rightarrow> h) @
     (case getPort connection of None \<Rightarrow> [] | Some p \<Rightarrow> CHR '':'' # number_text large_text p)"

fun hosts_loop :: "(int \<Rightarrow> string) \<Rightarrow> string \<Rightarrow> ConnectionParams list \<Rightarrow> string" where
  "hosts_loop large_text hosts [] = hosts"
| "hosts_loop large_text hosts (connection # rest) =
     hosts_loop large_text
       ((if length hosts > 0 then hosts @ '','' else hosts) @ host_port large_text connection) rest"

text \<open>Third loop: \<open>database = database || connection.getAsNullableString("database")\<close>.\<close>

fun database_loop :: "string option \<Rightarrow> ConnectionParams list \<Rightarrow> string option" where
  "database_loop database [] = database"
| "database_loop database (connection # rest) =
     database_loop (if truthy_str database then database else getDatabase connection) rest"

text \<open>The authentication part.\<close>

definition auth_part :: "CredentialParams option \<Rightarrow> string" where
  "auth_part credential =
     (case credential of
        None \<Rightarrow> []
      | Some cr \<Rightarrow>
          (case getUsername cr of
             None \<Rightarrow> []
           | Some username \<Rightarrow>
               (if username = [] then []
                else (case getPassword cr of
                        None \<Rightarrow> username @ ''@''
                      | Some password \<Rightarrow>
                          (if password = [] then username @ ''@''
                           else username @ '':'' @ password @ ''@'')))))"

text \<open>
  Modelled from the spec: \<open>ConfigParams.mergeConfigs\<close>, \<open>override\<close>, \<open>remove\<close>,
  \<open>getKeys\<close> and \<open>getAsString\<close>, which compute the additional parameters, belong to
  the external configuration package. On association lists: maps are merged in order, a
  later value replaces an earlier one in place, and the keys are listed in the order of
  their first occurrence.
\<close>

definition append_map :: "(string \<times> string option) list \<Rightarrow> (string \<times> string option) list
    \<Rightarrow> (string \<times> string option) list" where
  "append_map m extra = foldl (\<lambda>acc (k, v). AList.update k v acc) m extra"

definition mergeConfigs :: "ConnectionParams list \<Rightarrow> (string \<times> string option) list" where
  "mergeConfigs connections = foldl append_map [] (map conn_entries connections)"

definition override :: "(string \<times> string option) list \<Rightarrow> CredentialParams option
    \<Rightarrow> (string \<times> string option) list" where
  "override m credential =
     (case credential of None \<Rightarrow> m | Some cr \<Rightarrow> append_map m (cred_entries cr))"

definition compose_options :: "ConnectionParams list \<Rightarrow> CredentialParams option
    \<Rightarrow> (string \<times> string option) list" where
  "compose_options connections credential =
     AList.delete ''password'' (AList.delete ''username'' (AList.delete ''database''
       (AList.delete ''port'' (AList.delete ''host''
         (override (mergeConfigs connections) credential)))))"

fun params_loop :: "string \<Rightarrow> (string \<times> string option) list \<Rightarrow> string" where
  "params_loop params [] = params"
| "params_loop params ((key, v) # rest) =
     params_loop
       ((if length params > 0 then params @ ''&'' else params) @ key @
        (case v of None \<Rightarrow> [] | Some s \<Rightarrow> ''='' @ s))
       rest"

definition params_part :: "ConnectionParams list \<Rightarrow> CredentialParams option \<Rightarrow> string" where
  "params_part connections credential =
     (let params = params_loop [] (compose_options connections credential)
      in if length params > 0 then ''?'' @ params else params)"

text \<open>
  \<open>composeUri\<close>. Reading \<open>database.length\<close> throws when the third loop has left
  \<open>database\<close> null.
\<close>

definition composeUri :: "(int \<Rightarrow> string) \<Rightarrow> ConnectionParams list \<Rightarrow> CredentialParams option
    \<Rightarrow> error + string" where
  "composeUri large_text connections credential =
     (case first_uri connections of
        Some uri \<Rightarrow> Inr uri
      | None \<Rightarrow>
          (let hosts = hosts_loop large_text [] connections in
           case database_loop (Some []) connections of
             None \<Rightarrow> Inl TypeError
           | Some db \<Rightarrow>
               (let database = (if length db > 0 then ''/'' @ db else db);
                    auth = auth_part credential;
                    params = params_part connections credential
                in Inr (''mongodb://'' @ auth @ hosts @ database @ params))))"

subsection \<open>resolve\<close>

text \<open>
  \<open>resolve\<close> runs two lookups of external resolvers in parallel. Their answers
  \<open>(err, result)\<close> are inputs of the model; \<open>credential_first\<close> tells which of the two
  answered first, since the first error ends the join. The connections are validated
  when their lookup answers without error.
\<close>

definition resolve :: "(int \<Rightarrow> string) \<Rightarrow> string \<Rightarrow> bool
    \<Rightarrow> error option \<times> ConnectionParams list option
    \<Rightarrow> error option \<times> CredentialParams option \<Rightarrow> string outcome" where
  "resolve large_text correlationId credential_first connection_answer credential_answer =
     (let connections = snd connection_answer;
          err1 = (case fst connection_answer of
                    None \<Rightarrow> validateConnections correlationId connections
                  | Some e \<Rightarrow> Some e);
          credential = snd credential_answer;
          err2 = fst credential_answer;
          err = (if credential_first
                 then (case err2 of Some e \<Rightarrow> Some e | None \<Rightarrow> err1)
                 else (case err1 of Some e \<Rightarrow> Some e | None \<Rightarrow> err2))
      in case err of
           Some e \<Rightarrow> Called (Some e) None
         | None \<Rightarrow>
             (case connections of
                None \<Rightarrow> Thrown TypeError
              | Some cs \<Rightarrow>
                  (case composeUri large_text cs credential of
                     Inl ex \<Rightarrow> Thrown ex
                   | Inr uri \<Rightarrow> Called None (Some uri))))"

subsection \<open>Closed forms of the composition loops\<close>

text \<open>
  The parts of the composed URI written without loops, to compare the loops with: a list
  of texts joined by a separator, and the first database that is neither null nor empty.
\<close>

fun join_with :: "string \<Rightarrow> string list \<Rightarrow> string" where
  "join_with sep [] = []"
| "join_with sep [x] = x"
| "join_with sep (x # y # ys) = x @ sep @ join_with sep (y # ys)"

definition first_database :: "ConnectionParams list \<Rightarrow> string option" where
  "first_database cs =
     (case filter truthy_str (map getDatabase cs) of [] \<Rightarrow> None | d # _ \<Rightarrow> d)"

text \<open>
  The parts as the specification words them: \<open>host[:port]\<close> of a descriptor,
  \<open>username:password@\<close> (or \<open>username@\<close> without password) when the credential has
  a username, and the remaining pairs as \<open>key=value\<close> joined by \<open>&\<close> behind \<open>?\<close>.
\<close>

definition host_entry :: "(int \<Rightarrow> string) \<Rightarrow> ConnectionParams \<Rightarrow> string" where
  "host_entry large_text c =
     (case getHost c of None \<Rightarrow> [] | Some h \<Rightarrow> h) @
     (case getPort c of None \<Rightarrow> [] | Some p \<Rightarrow> '':'' @ number_text large_text p)"

definition auth_prefix :: "CredentialParams option \<Rightarrow> string" where
  "auth_prefix credential =
     (case Option.bind credential getUsername of
        None \<Rightarrow> []
      | Some u \<Rightarrow>
          (if u = [] then []
           else u @ (case Option.bind credential getPassword of
                       None \<Rightarrow> []
                     | Some p \<Rightarrow> (if p = [] then [] else '':'' @ p)) @ ''@''))"

definition key_value :: "string \<times> string option \<Rightarrow> string" where
  "key_value kv = fst kv @ (case snd kv of None \<Rightarrow> [] | Some s \<Rightarrow> ''='' @ s)"

definition query_part :: "(string \<times> string option) list \<Rightarrow> string" where
  "query_part options =
     (let q = join_with ''&'' (dropWhile (\<lambda>s. s = []) (map key_value options))
      in if q = [] then [] else ''?'' @ q)"

section \<open>The persistence components\<close>

subsection \<open>Documents, pages and the Mongoose model\<close>

text \<open>
  A document is its fields, together with its \<open>toJSON\<close> method when it has one (a
  Mongoose document does, a plain object does not).
\<close>

record document =
  doc_fields :: fields
  toJSON :: "(fields \<Rightarrow> fields) option"

record 'a DataPage =
  page_data :: "'a list"
  page_total :: "int option"

text \<open>
  Modelled from the spec: \<open>PagingParams\<close> belongs to an external package. It holds an
  optional skip count, an optional take count and the flag that asks for a total;
  \<open>getSkip\<close> and \<open>getTake\<close> return the count when it is set and their argument
  otherwise, and \<open>new PagingParams()\<close> sets nothing.
\<close>

record PagingParams =
  paging_skip :: "int option"
  paging_take :: "int option"
  paging_total :: bool

definition new_PagingParams :: PagingParams where
  "new_PagingParams = \<lparr>paging_skip = None, paging_take = None, paging_total = False\<rparr>"

definition getSkip :: "PagingParams \<Rightarrow> int \<Rightarrow> int" where
  "getSkip paging minSkip = (case paging_skip paging of None \<Rightarrow> minSkip | Some s \<Rightarrow> s)"

definition getTake :: "PagingParams \<Rightarrow> int \<Rightarrow> int" where
  "getTake paging maxTake = (case paging_take paging of None \<Rightarrow> maxTake | Some t \<Rightarrow> t)"

text \<open>
  The query that \<open>find\<close> starts and \<open>skip\<close>, \<open>limit\<close>, \<open>sort\<close> and \<open>select\<close> extend:
  a clause that was not called is \<open>None\<close>.
\<close>

record statement =
  st_filter :: jsval
  st_skip :: "int option"
  st_limit :: "int option"
  st_sort :: "jsval option"
  st_select :: "jsval option"

text \<open>
  The Mongoose model \<open>this._model\<close> is an external collaborator: it is a record of the
  answers \<open>(err, result)\<close> it gives to each call. The calls an operation issues are
  returned in order beside its outcome.
\<close>

record driver =
  model_exec :: "statement \<Rightarrow> error option \<times> document list option"
  model_count :: "jsval \<Rightarrow> error option \<times> int option"
  model_findById :: "jsval \<Rightarrow> error option \<times> document option"
  model_create :: "jsval \<Rightarrow> error option \<times> document option"
  model_findOneAndUpdate :: "jsval \<Rightarrow> jsval \<Rightarrow> jsval \<Rightarrow> error option \<times> document option"
  model_findByIdAndUpdate :: "jsval \<Rightarrow> jsval \<Rightarrow> jsval \<Rightarrow> error option \<times> document option"
  model_findByIdAndRemove :: "jsval \<Rightarrow> error option \<times> document option"
  model_remove :: "jsval \<Rightarrow> error option \<times> int option"

datatype call =
    Exec statement
  | Count jsval
  | FindById jsval
  | Create jsval
  | FindOneAndUpdate jsval jsval jsval
  | FindByIdAndUpdate jsval jsval jsval
  | FindByIdAndRemove jsval
  | Remove jsval

text \<open>
  The state of a persistence component that the operations read: the collection name,
  the model (bound by the constructor only when a collection and a schema are both
  given) and the maximum page size.
\<close>

record persistence =
  p_collection :: "string option"
  p_model :: "driver option"
  maxPageSize :: int

subsection \<open>MongoDbPersistence\<close>

definition convertToPublic :: "document option \<Rightarrow> document option" where
  "convertToPublic v =
     (case v of
        None \<Rightarrow> None
      | Some d \<Rightarrow>
          (case toJSON d of
             None \<Rightarrow> Some d
           | Some f \<Rightarrow> Some \<lparr>doc_fields = f (doc_fields d), toJSON = None\<rparr>))"

definition convertFromPublic :: "fields \<Rightarrow> fields" where
  "convertFromPublic v = v"

text \<open>\<open>clear\<close>; \<open>has_callback\<close> tells whether the optional callback was given.\<close>

definition clear :: "persistence \<Rightarrow> string \<Rightarrow> bool \<Rightarrow> unit outcome \<times> call list" where
  "clear this correlationId has_callback =
     (if p_collection this = None then
        (if has_callback then (Called (Some (Error ''Collection name is not defined'')) None, [])
         else (NotCalled, []))
      else
        (case p_model this of
           None \<Rightarrow> (Thrown TypeError, [])
         | Some m \<Rightarrow>
             (let err = (case fst (model_remove m (JObj [])) of
                           Some e \<Rightarrow>
                             Some (withCause
                               (ConnectionException correlationId ''CONNECT_FAILED''
                                  ''Connection to mongodb failed'' None) e)
                         | None \<Rightarrow> None)
              in (if has_callback then Called err None else NotCalled, [Remove (JObj [])]))))"

subsection \<open>IdentifiableMongoDbPersistence\<close>


text \<open>lodash's \<open>isEmpty\<close>: a value without own enumerable keys or elements is empty.\<close>

fun isEmpty :: "jsval \<Rightarrow> bool" where
  "isEmpty JNull = True"
| "isEmpty (JBool b) = True"
| "isEmpty (JNum n) = True"
| "isEmpty (JStr s) = (s = [])"
| "isEmpty (JArr xs) = (xs = [])"
| "isEmpty (JObj fs) = (fs = [])"

text \<open>The statement that \<open>getPageByFilter\<close> configures.\<close>

definition page_statement :: "jsval \<Rightarrow> int \<Rightarrow> int \<Rightarrow> jsval \<Rightarrow> jsval \<Rightarrow> statement" where
  "page_statement filter' skip take' sort' select =
     \<lparr>st_filter = filter',
      st_skip = (if skip \<ge> 0 then Some skip else None),
      st_limit = Some take',
      st_sort = (if truthy sort' \<and> \<not> isEmpty sort' then Some sort' else None),
      st_select = (if truthy select \<and> \<not> isEmpty select then Some select else None)\<rparr>"

text \<open>\<open>_.map(items, this.convertToPublic)\<close>: a null list maps to the empty list.\<close>

definition map_convertToPublic :: "document list option \<Rightarrow> document option list" where
  "map_convertToPublic items =
     (case items of None \<Rightarrow> [] | Some ds \<Rightarrow> map (\<lambda>d. convertToPublic (Some d)) ds)"

definition getPageByFilter :: "persistence \<Rightarrow> string \<Rightarrow> jsval \<Rightarrow> PagingParams option
    \<Rightarrow> jsval \<Rightarrow> jsval \<Rightarrow> (document option) DataPage outcome \<times> call list" where
  "getPageByFilter this correlationId filter' paging0 sort' select =
     (let paging = (case paging0 of None \<Rightarrow> new_PagingParams | Some p \<Rightarrow> p);
          skip = getSkip paging (- 1);
          take' = getTake paging (maxPageSize this);
          pagingEnabled = paging_total paging
      in case p_model this of
           None \<Rightarrow> (Thrown TypeError, [])
         | Some m \<Rightarrow>
             (let stmt = page_statement filter' skip take' sort' select in
              case model_exec m stmt of
                (Some err, items) \<Rightarrow> (Called (Some err) None, [Exec stmt])
              | (None, items0) \<Rightarrow>
                  (let items = map_convertToPublic items0 in
                   if pagingEnabled then
                     (case model_count m filter' of
                        (Some err, c) \<Rightarrow> (Called (Some err) None, [Exec stmt, Count filter'])
                      | (None, c) \<Rightarrow>
                          (Called None (Some \<lparr>page_data = items, page_total = c\<rparr>),
                           [Exec stmt, Count filter']))
                   else
                     (Called None (Some \<lparr>page_data = items, page_total = None\<rparr>),
                      [Exec stmt]))))"

text \<open>
  \<open>a || b\<close> on a property that may be absent, and the value a property has when it
  is written into an object literal (an absent one is written as null).
\<close>

definition js_or :: "jsval option \<Rightarrow> jsval \<Rightarrow> jsval" where
  "js_or a b = (case a of None \<Rightarrow> b | Some v \<Rightarrow> if truthy v then v else b)"

definition property_of :: "fields \<Rightarrow> string \<Rightarrow> jsval" where
  "property_of obj key = (case map_of obj key of None \<Rightarrow> JNull | Some v \<Rightarrow> v)"

text \<open>
  The document that \<open>create\<close> and \<open>set\<close> store: \<open>_.omit(item, 'id')\<close>, then
  \<open>newItem._id = item.id || IdGenerator.nextLong()\<close>, then \<open>convertFromPublic\<close>.
  \<open>nextLong\<close> is the key the external id generator returns when it is asked.
\<close>

definition assign_id :: "fields \<Rightarrow> jsval \<Rightarrow> fields" where
  "assign_id item nextLong =
     convertFromPublic
       (AList.update ''_id'' (js_or (map_of item ''id'') nextLong) (AList.delete ''id'' item))"

definition getOneById :: "persistence \<Rightarrow> string \<Rightarrow> jsval \<Rightarrow> document outcome \<times> call list" where
  "getOneById this correlationId id' =
     (case p_model this of
        None \<Rightarrow> (Thrown TypeError, [])
      | Some m \<Rightarrow>
          (case model_findById m id' of
             (err, item) \<Rightarrow> (Called err (convertToPublic item), [FindById id'])))"

text \<open>
  \<open>create\<close> calls its callback without testing it, and reads \<open>newItem._id\<close> for the
  trace when the driver reported no error.
\<close>

definition create :: "persistence \<Rightarrow> string \<Rightarrow> fields option \<Rightarrow> bool \<Rightarrow> jsval
    \<Rightarrow> document outcome \<times> call list" where
  "create this correlationId item has_callback nextLong =
     (case item of
        None \<Rightarrow> (if has_callback then Called None None else Thrown TypeError, [])
      | Some it \<Rightarrow>
          (let newItem = assign_id it nextLong in
           case p_model this of
             None \<Rightarrow> (Thrown TypeError, [])
           | Some m \<Rightarrow>
               (case model_create m (JObj newItem) of
                  (err, created) \<Rightarrow>
                    (if err = None \<and> created = None then (Thrown TypeError, [Create (JObj newItem)])
                     else if has_callback
                       then (Called err (convertToPublic created), [Create (JObj newItem)])
                     else (Thrown TypeError, [Create (JObj newItem)])))))"

definition set_item :: "persistence \<Rightarrow> string \<Rightarrow> fields option \<Rightarrow> bool \<Rightarrow> jsval
    \<Rightarrow> document outcome \<times> call list" where
  "set_item this correlationId item has_callback nextLong =
     (case item of
        None \<Rightarrow> (if has_callback then Called None None else NotCalled, [])
      | Some it \<Rightarrow>
          (let newItem = assign_id it nextLong;
               filter' = JObj [(''_id'', property_of newItem ''_id'')];
               options = JObj [(''new'', JBool True), (''upsert'', JBool True)]
           in case p_model this of
                None \<Rightarrow> (Thrown TypeError, [])
              | Some m \<Rightarrow>
                  (case model_findOneAndUpdate m filter' (JObj newItem) options of
                     (err, updated) \<Rightarrow>
                       (if has_callback then Called err (convertToPublic updated) else NotCalled,
                        [FindOneAndUpdate filter' (JObj newItem) options]))))"



text \<open>\<open>deleteById\<close> has no test of its argument: the id goes to the driver as it is.\<close>

definition deleteById :: "persistence \<Rightarrow> string \<Rightarrow> jsval \<Rightarrow> bool
    \<Rightarrow> document outcome \<times> call list" where
  "deleteById this correlationId id' has_callback =
     (case p_model this of
        None \<Rightarrow> (Thrown TypeError, [])
      | Some m \<Rightarrow>
          (case model_findByIdAndRemove m id' of
             (err, oldItem) \<Rightarrow>
               (if has_callback then Called err (convertToPublic oldItem) else NotCalled,
                [FindByIdAndRemove id'])))"

subsection \<open>The driver's cursor options and filters\<close>

text \<open>
  Modelled from the spec: the document store driver is external. A field filter matches
  a document that binds each of its keys to the given value (the null filter and the
  empty filter match every document); \<open>skip\<close> drops and \<open>limit\<close> keeps a number of the
  matching documents.
\<close>

definition matches :: "jsval \<Rightarrow> document \<Rightarrow> bool" where
  "matches filter' d =
     (case filter' of
        JObj conds \<Rightarrow> list_all (\<lambda>(k, v). map_of (doc_fields d) k = Some v) conds
      | _ \<Rightarrow> True)"

definition run_statement :: "statement \<Rightarrow> document list \<Rightarrow> document list" where
  "run_statement stmt docs =
     (let found = filter (matches (st_filter stmt)) docs;
          skipped = (case st_skip stmt of None \<Rightarrow> found | Some n \<Rightarrow> drop (nat n) found)
      in case st_limit stmt of None \<Rightarrow> skipped | Some n \<Rightarrow> take (nat n) skipped)"

subsection \<open>Names for what the operations issue\<close>

text \<open>
  \<open>paging || new PagingParams()\<close>, the statement \<open>getPageByFilter\<close> hands to the driver,
  and the statement a list of calls starts with.
\<close>

definition paging_or_new :: "PagingParams option \<Rightarrow> PagingParams" where
  "paging_or_new paging0 = (case paging0 of None \<Rightarrow> new_PagingParams | Some p \<Rightarrow> p)"

definition configured_statement :: "persistence \<Rightarrow> jsval \<Rightarrow> PagingParams option \<Rightarrow> jsval
    \<Rightarrow> jsval \<Rightarrow> statement" where
  "configured_statement this filter' paging0 sort' select =
     page_statement filter' (getSkip (paging_or_new paging0) (- 1))
       (getTake (paging_or_new paging0) (maxPageSize this)) sort' select"

definition first_statement :: "call list \<Rightarrow> statement option" where
  "first_statement calls = (case calls of Exec stmt # _ \<Rightarrow> Some stmt | _ \<Rightarrow> None)"

text \<open>A driver that has lost its connection: every call is answered with an error.\<close>

definition failing_driver :: driver where
  "failing_driver =
     \<lparr>model_exec = (\<lambda>stmt. (Some (DriverError ''not connected''), None)),
      model_count = (\<lambda>f. (Some (DriverError ''not connected''), None)),
      model_findById = (\<lambda>i. (Some (DriverError ''not connected''), None)),
      model_create = (\<lambda>d. (Some (DriverError ''not connected''), None)),
      model_findOneAndUpdate = (\<lambda>f d opts. (Some (DriverError ''not connected''), None)),
      model_findByIdAndUpdate = (\<lambda>i d opts. (Some (DriverError ''not connected''), None)),
      model_findByIdAndRemove = (\<lambda>i. (Some (DriverError ''not connected''), None)),
      model_remove = (\<lambda>f. (Some (DriverError ''not connected''), None))\<rparr>"

subsection \<open>A store and its documents, for examples\<close>

text \<open>
  Modelled from the spec: the documents of the test collection \<open>dummies\<close> carry a key
  under \<open>_id\<close> and a field \<open>key\<close>. The example driver answers the queries, the calls by
  id, \<open>create\<close> and \<open>remove\<close> from a list of documents and fails on the calls it does
  not model. \<open>rename_id\<close> is a \<open>toJSON\<close> that moves \<open>_id\<close> to \<open>id\<close>.
\<close>

definition dummy :: "string \<Rightarrow> string \<Rightarrow> document" where
  "dummy i k = \<lparr>doc_fields = [(''_id'', JStr i), (''key'', JStr k)], toJSON = None\<rparr>"

definition six_dummies :: "document list" where
  "six_dummies = [dummy ''1'' ''a'', dummy ''2'' ''a'', dummy ''3'' ''b'', dummy ''4'' ''a'',
                  dummy ''5'' ''a'', dummy ''6'' ''a'']"

definition fields_of :: "jsval \<Rightarrow> fields" where
  "fields_of v = (case v of JObj fs \<Rightarrow> fs | _ \<Rightarrow> [])"

definition by_id :: "jsval \<Rightarrow> document list \<Rightarrow> document option" where
  "by_id i docs = find (\<lambda>d. map_of (doc_fields d) ''_id'' = Some i) docs"

definition store_driver :: "document list \<Rightarrow> driver" where
  "store_driver docs =
     failing_driver
       \<lparr>model_exec := (\<lambda>stmt. (None, Some (run_statement stmt docs))),
        model_count := (\<lambda>f. (None, Some (int (length (filter (matches f) docs))))),
        model_findById := (\<lambda>i. (None, by_id i docs)),
        model_create := (\<lambda>v. (None, Some \<lparr>doc_fields = fields_of v, toJSON = None\<rparr>)),
        model_findByIdAndRemove := (\<lambda>i. (None, by_id i docs)),
        model_remove := (\<lambda>f. (None, Some (int (length (filter (matches f) docs)))))\<rparr>"

definition rename_id :: "fields \<Rightarrow> fields" where
  "rename_id fs =
     (case map_of fs ''_id'' of None \<Rightarrow> fs | Some v \<Rightarrow> (''id'', v) # AList.delete ''_id'' fs)"

definition dummies :: "driver \<Rightarrow> persistence" where
  "dummies m = \<lparr>p_collection = Some ''dummies'', p_model = Some m, maxPageSize = 100\<rparr>"

section \<open>Properties of the connection resolver\<close>

subsection \<open>The loops and their closed forms\<close>

lemma validate_each_find:
  "validate_each cid cs =
     (case find (\<lambda>c. validateConnection cid c \<noteq> None) cs of
        None \<Rightarrow> None | Some c \<Rightarrow> validateConnection cid c)"
  by (induction cs) (auto split: option.splits)

lemma join_with_Cons: "join_with sep (x # xs) = x @ concat (map (\<lambda>y. sep @ y) xs)"
  by (induction xs arbitrary: x) auto

lemma hosts_loop_nonempty:
  "acc \<noteq> [] \<Longrightarrow>
   hosts_loop lt acc cs = acc @ concat (map (\<lambda>c. '','' @ host_port lt c) cs)"
  by (induction cs arbitrary: acc) auto

lemma hosts_loop_join:
  "hosts_loop lt [] cs = join_with '','' (dropWhile (\<lambda>s. s = []) (map (host_port lt) cs))"
proof (induction cs)
  case Nil
  then show ?case by simp
next
  case (Cons c cs)
  show ?case
  proof (cases "host_port lt c = []")
    case True
    then show ?thesis using Cons by simp
  next
    case False
    then show ?thesis
      by (simp add: hosts_loop_nonempty join_with_Cons comp_def)
  qed
qed

lemma params_loop_nonempty:
  "acc \<noteq> [] \<Longrightarrow>
   params_loop acc opts = acc @ concat (map (\<lambda>kv. ''&'' @ key_value kv) opts)"
  by (induction opts arbitrary: acc) (auto simp: key_value_def)

lemma params_loop_join:
  "params_loop [] opts = join_with ''&'' (dropWhile (\<lambda>s. s = []) (map key_value opts))"
proof (induction opts)
  case Nil
  then show ?case by simp
next
  case (Cons kv opts)
  obtain k v where kv: "kv = (k, v)" by (cases kv)
  show ?case
  proof (cases "key_value kv = []")
    case True
    then show ?thesis using Cons kv by (simp add: key_value_def)
  next
    case False
    then have "params_loop [] (kv # opts) = params_loop (key_value kv) opts"
      using kv by (simp add: key_value_def)
    with False show ?thesis
      by (simp add: params_loop_nonempty join_with_Cons comp_def)
  qed
qed

lemma params_part_query: "params_part cs credential = query_part (compose_options cs credential)"
  by (simp add: params_part_def query_part_def params_loop_join Let_def)

lemma auth_part_prefix: "auth_part credential = auth_prefix credential"
  by (auto simp: auth_part_def auth_prefix_def split: option.splits)

lemma host_port_entry: "getHost c \<noteq> None \<Longrightarrow> host_port lt c = host_entry lt c"
  by (auto simp: host_port_def host_entry_def split: option.splits)

lemma map_of_append_map:
  "map_of (append_map m extra) = map_of m ++ map_of (rev extra)"
proof (induction extra arbitrary: m)
  case Nil
  then show ?case by (simp add: append_map_def)
next
  case (Cons kv extra)
  obtain k v where kv: "kv = (k, v)" by (cases kv)
  have "append_map m (kv # extra) = append_map (AList.update k v m) extra"
    by (simp add: append_map_def kv)
  then show ?case using Cons [of "AList.update k v m"]
    by (simp add: kv update_conv' map_add_def fun_eq_iff split: option.splits)
qed

lemma map_of_mergeConfigs_aux:
  "map_of (foldl append_map m ess) = map_of m ++ map_of (rev (concat ess))"
proof (induction ess arbitrary: m)
  case Nil
  then show ?case by simp
next
  case (Cons es ess)
  show ?case
    by (simp add: Cons map_of_append_map map_add_def fun_eq_iff split: option.splits)
qed

lemma map_of_mergeConfigs:
  "map_of (mergeConfigs cs) = map_of (rev (concat (map conn_entries cs)))"
  by (simp add: mergeConfigs_def map_of_mergeConfigs_aux)

lemma map_of_compose_options:
  "map_of (compose_options cs credential) k =
     (if k \<in> {''host'', ''port'', ''database'', ''username'', ''password''} then None
      else (case (case credential of None \<Rightarrow> None | Some cr \<Rightarrow> map_of (rev (cred_entries cr)) k) of
              Some v \<Rightarrow> Some v
            | None \<Rightarrow> map_of (rev (concat (map conn_entries cs))) k))"
  by (auto simp: compose_options_def override_def delete_conv' map_of_append_map
      map_of_mergeConfigs map_add_def split: option.splits)

lemma database_loop_truthy: "truthy_str db \<Longrightarrow> database_loop db cs = db"
  by (induction cs arbitrary: db) auto

lemma database_loop_first:
  "\<not> truthy_str db \<Longrightarrow> first_database cs = Some d \<Longrightarrow> database_loop db cs = Some d"
proof (induction cs arbitrary: db)
  case Nil
  then show ?case by (simp add: first_database_def)
next
  case (Cons c cs)
  show ?case
  proof (cases "truthy_str (getDatabase c)")
    case True
    with Cons.prems show ?thesis
      by (simp add: first_database_def database_loop_truthy)
  next
    case False
    with Cons show ?thesis by (simp add: first_database_def)
  qed
qed

lemma database_loop_none:
  "\<not> truthy_str db \<Longrightarrow> db \<noteq> None \<Longrightarrow> first_database cs = None \<Longrightarrow>
   list_all (\<lambda>c. getDatabase c \<noteq> None) cs \<Longrightarrow> database_loop db cs = Some []"
proof (induction cs arbitrary: db)
  case Nil
  then show ?case by (auto simp: truthy_str_def split: option.splits)
next
  case (Cons c cs)
  show ?case
  proof (cases "truthy_str (getDatabase c)")
    case True
    with Cons.prems show ?thesis
      by (auto simp add: first_database_def truthy_str_def split: option.splits)
  next
    case False
    with Cons show ?thesis by (simp add: first_database_def)
  qed
qed

lemma first_database_nonempty: "first_database cs = Some d \<Longrightarrow> d \<noteq> []"
proof -
  assume "first_database cs = Some d"
  then obtain ys where "filter truthy_str (map getDatabase cs) = Some d # ys"
    by (auto simp: first_database_def split: list.splits)
  then have "Some d \<in> set (filter truthy_str (map getDatabase cs))" by simp
  then show "d \<noteq> []" by (auto simp: truthy_str_def)
qed

lemma validated_no_uri_database:
  "validate_each cid cs = None \<Longrightarrow> \<forall>c\<in>set cs. getUri c = None \<Longrightarrow>
   list_all (\<lambda>c. getDatabase c \<noteq> None) cs"
  by (induction cs) (auto simp: validateConnection_def split: option.splits if_splits)

lemma validated_no_uri_host:
  "validate_each cid cs = None \<Longrightarrow> \<forall>c\<in>set cs. getUri c = None \<Longrightarrow>
   map (host_port lt) cs = map (host_entry lt) cs"
  by (induction cs)
    (auto simp: validateConnection_def host_port_entry split: option.splits if_splits)

lemma first_uri_none: "\<forall>c\<in>set cs. \<not> truthy_str (getUri c) \<Longrightarrow> first_uri cs = None"
  by (induction cs) auto

lemma first_uri_find:
  "find (\<lambda>c. truthy_str (getUri c)) cs = Some c \<Longrightarrow> first_uri cs = getUri c"
  by (induction cs) (auto split: if_splits)

lemma port_texts:
  "number_text lt 27017 = ''27017''" "number_text lt 27018 = ''27018''"
  by (simp_all add: number_text_def int_text_def nat_text.simps digit_char_def)

subsection \<open>Validation\<close>

text \<open>
  Claim C2. Validation fails with \<open>NO_CONNECTION\<close> when the list of descriptors is null
  or empty. Otherwise the descriptors are checked in order: a descriptor with a non-null
  uri is valid whatever its other fields are; one without a uri fails with \<open>NO_HOST\<close>
  when its host is null, else with \<open>NO_PORT\<close> when its port is 0, else with
  \<open>NO_DATABASE\<close> when its database is null. The error of the first descriptor that
  fails is the result, and it is the error \<open>resolve\<close> reports when the connection
  lookup itself succeeded (and the credential lookup did not fail before it).
\<close>

theorem validateConnections_first_error:
  "validateConnections cid None =
     Some (ConfigException cid ''NO_CONNECTION'' ''Database connection is not set'')
   \<and> validateConnections cid (Some []) =
     Some (ConfigException cid ''NO_CONNECTION'' ''Database connection is not set'')
   \<and> (cs \<noteq> [] \<longrightarrow> validateConnections cid (Some cs) =
         (case find (\<lambda>c. validateConnection cid c \<noteq> None) cs of
            None \<Rightarrow> None | Some c \<Rightarrow> validateConnection cid c))
   \<and> (getUri c \<noteq> None \<longrightarrow> validateConnection cid c = None)
   \<and> (getUri c = None \<longrightarrow> validateConnection cid c =
         (if getHost c = None then
            Some (ConfigException cid ''NO_HOST'' ''Connection host is not set'')
          else if getPort c = Some 0 then
            Some (ConfigException cid ''NO_PORT'' ''Connection port is not set'')
          else if getDatabase c = None then
            Some (ConfigException cid ''NO_DATABASE'' ''Connection database is not set'')
          else None))
   \<and> (validateConnections cid conns = Some e
        \<and> (fst credential_answer = None \<or> \<not> credential_first) \<longrightarrow>
         resolve lt cid credential_first (None, conns) credential_answer = Called (Some e) None)"
proof -
  have "cs \<noteq> [] \<longrightarrow> validateConnections cid (Some cs) = validate_each cid cs"
    by (cases cs) (simp_all add: validateConnections_def)
  then show ?thesis
    by (auto simp: validateConnections_def validateConnection_def resolve_def Let_def
        validate_each_find split: option.splits)
qed

theorem validateConnections_first_error_witness:
  "validateConnections ''123''
     (Some [\<lparr>getUri = Some ''mongodb://db:27017/test'', getHost = None, getPort = Some 0,
              getDatabase = None, conn_entries = [(''uri'', Some ''mongodb://db:27017/test'')]\<rparr>,
            \<lparr>getUri = None, getHost = Some ''a'', getPort = Some 0,
              getDatabase = None, conn_entries = [(''host'', Some ''a'')]\<rparr>,
            \<lparr>getUri = None, getHost = None, getPort = Some 0,
              getDatabase = None, conn_entries = []\<rparr>])
     = Some (ConfigException ''123'' ''NO_PORT'' ''Connection port is not set'')
   \<and> resolve int_text ''123'' False
     (None, Some [\<lparr>getUri = Some ''mongodb://db:27017/test'', getHost = None, getPort = Some 0,
              getDatabase = None, conn_entries = [(''uri'', Some ''mongodb://db:27017/test'')]\<rparr>,
            \<lparr>getUri = None, getHost = Some ''a'', getPort = Some 0,
              getDatabase = None, conn_entries = [(''host'', Some ''a'')]\<rparr>,
            \<lparr>getUri = None, getHost = None, getPort = Some 0,
              getDatabase = None, conn_entries = []\<rparr>])
     (None, None)
     = Called (Some (ConfigException ''123'' ''NO_PORT'' ''Connection port is not set'')) None"
proof -
  let ?cs = "[\<lparr>getUri = Some ''mongodb://db:27017/test'', getHost = None, getPort = Some 0,
              getDatabase = None, conn_entries = [(''uri'', Some ''mongodb://db:27017/test'')]\<rparr>,
            \<lparr>getUri = None, getHost = Some ''a'', getPort = Some 0,
              getDatabase = None, conn_entries = [(''host'', Some ''a'')]\<rparr>,
            \<lparr>getUri = None, getHost = None, getPort = Some 0,
              getDatabase = None, conn_entries = []\<rparr>]"
  let ?e = "ConfigException ''123'' ''NO_PORT'' ''Connection port is not set''"
  have v: "validateConnections ''123'' (Some ?cs) = Some ?e"
    by (simp add: validateConnections_def validateConnection_def)
  from validateConnections_first_error
    [where cid = "''123''" and conns = "Some ?cs" and e = ?e and lt = int_text
       and credential_answer = "(None, None)" and credential_first = False]
  have "resolve int_text ''123'' False (None, Some ?cs) (None, None) = Called (Some ?e) None"
    using v by simp
  with v show ?thesis by simp
qed

subsection \<open>Composition\<close>

text \<open>
  Claim C3. When at least one descriptor of the list carries a literal uri (a uri that
  is neither null nor empty), \<open>composeUri\<close> returns the uri of the first such descriptor
  unchanged, whatever the other descriptors and the credential are.
\<close>

theorem composeUri_first_literal_uri:
  assumes "find (\<lambda>c. truthy_str (getUri c)) cs = Some c" and "getUri c = Some u"
  shows "composeUri lt cs credential = Inr u"
  using first_uri_find [OF assms(1)] assms(2) by (simp add: composeUri_def)

theorem composeUri_first_literal_uri_witness:
  "composeUri int_text
     [\<lparr>getUri = None, getHost = Some ''a'', getPort = Some 27017,
        getDatabase = Some ''test'', conn_entries = [(''host'', Some ''a'')]\<rparr>,
      \<lparr>getUri = Some ''mongodb://first:27017/one'', getHost = None, getPort = None,
        getDatabase = None, conn_entries = [(''uri'', Some ''mongodb://first:27017/one'')]\<rparr>,
      \<lparr>getUri = Some ''mongodb://second:27017/two'', getHost = None, getPort = None,
        getDatabase = None, conn_entries = [(''uri'', Some ''mongodb://second:27017/two'')]\<rparr>]
     (Some \<lparr>getUsername = Some ''u'', getPassword = Some ''p'',
             cred_entries = [(''username'', Some ''u''), (''password'', Some ''p'')]\<rparr>)
   = Inr ''mongodb://first:27017/one''"
proof -
  let ?c = "\<lparr>getUri = Some ''mongodb://first:27017/one'', getHost = None, getPort = None,
        getDatabase = None, conn_entries = [(''uri'', Some ''mongodb://first:27017/one'')]\<rparr>"
  let ?cs = "[\<lparr>getUri = None, getHost = Some ''a'', getPort = Some 27017,
        getDatabase = Some ''test'', conn_entries = [(''host'', Some ''a'')]\<rparr>,
      ?c,
      \<lparr>getUri = Some ''mongodb://second:27017/two'', getHost = None, getPort = None,
        getDatabase = None, conn_entries = [(''uri'', Some ''mongodb://second:27017/two'')]\<rparr>]"
  have f: "find (\<lambda>c. truthy_str (getUri c)) ?cs = Some ?c"
    by (simp add: truthy_str_def)
  have u: "getUri ?c = Some ''mongodb://first:27017/one''" by simp
  show ?thesis using composeUri_first_literal_uri [OF f u] by simp
qed

text \<open>
  Claim C1. For a call of \<open>resolve\<close> whose descriptors carry no uri (so that each has
  passed the host, port and database checks), \<open>composeUri\<close> returns \<open>mongodb://\<close>, then
  the authentication prefix (\<open>username:password@\<close>, \<open>username@\<close> without password,
  nothing without username), then the \<open>host[:port]\<close> texts of the descriptors in order
  joined by commas (texts before the first non-empty one add nothing), then \<open>/\<close> and the
  first database that is not empty (nothing when every database is empty), then behind
  \<open>?\<close> the remaining options as \<open>key=value\<close> joined by \<open>&\<close>; and \<open>resolve\<close> hands
  that text to its callback. The options are the entries of the descriptors and of the
  credential without host, port, database, username and password, where the credential
  wins over the descriptors and a later descriptor over an earlier one. One descriptor
  localhost, 27017, test without credential gives \<open>mongodb://localhost:27017/test\<close>;
  the descriptors a:27017 and b:27018 with database test and the credential u, p give
  \<open>mongodb://u:p@a:27017,b:27018/test\<close>.
\<close>

theorem composeUri_without_uri:
  assumes "validateConnections cid (Some cs) = None"
    and "\<forall>c\<in>set cs. getUri c = None"
  shows "composeUri lt cs credential =
           Inr (''mongodb://'' @ auth_prefix credential
                @ join_with '','' (dropWhile (\<lambda>s. s = []) (map (host_entry lt) cs))
                @ (case first_database cs of None \<Rightarrow> [] | Some d \<Rightarrow> ''/'' @ d)
                @ query_part (compose_options cs credential))
         \<and> resolve lt cid credential_first (None, Some cs) (None, credential) =
           Called None (Some (''mongodb://'' @ auth_prefix credential
                @ join_with '','' (dropWhile (\<lambda>s. s = []) (map (host_entry lt) cs))
                @ (case first_database cs of None \<Rightarrow> [] | Some d \<Rightarrow> ''/'' @ d)
                @ query_part (compose_options cs credential)))
         \<and> (\<forall>k. map_of (compose_options cs credential) k =
               (if k \<in> {''host'', ''port'', ''database'', ''username'', ''password''} then None
                else (case (case credential of
                              None \<Rightarrow> None
                            | Some cr \<Rightarrow> map_of (rev (cred_entries cr)) k) of
                        Some v \<Rightarrow> Some v
                      | None \<Rightarrow> map_of (rev (concat (map conn_entries cs))) k)))"
proof -
  from assms(1) have ve: "validate_each cid cs = None"
    by (cases cs) (simp_all add: validateConnections_def)
  have dbs: "list_all (\<lambda>c. getDatabase c \<noteq> None) cs"
    using validated_no_uri_database [OF ve assms(2)] .
  have hs: "map (host_port lt) cs = map (host_entry lt) cs"
    using validated_no_uri_host [OF ve assms(2)] .
  have fu: "first_uri cs = None"
    using assms(2) by (intro first_uri_none) (simp add: truthy_str_def)
  have db: "database_loop (Some []) cs =
              (case first_database cs of None \<Rightarrow> Some [] | Some d \<Rightarrow> Some d)"
  proof (cases "first_database cs")
    case None
    then show ?thesis using database_loop_none [of "Some []" cs] dbs
      by (simp add: truthy_str_def)
  next
    case (Some d)
    then show ?thesis using database_loop_first [of "Some []" cs d]
      by (simp add: truthy_str_def)
  qed
  have cu: "composeUri lt cs credential =
           Inr (''mongodb://'' @ auth_prefix credential
                @ join_with '','' (dropWhile (\<lambda>s. s = []) (map (host_entry lt) cs))
                @ (case first_database cs of None \<Rightarrow> [] | Some d \<Rightarrow> ''/'' @ d)
                @ query_part (compose_options cs credential))"
    using fu db first_database_nonempty [of cs]
    by (auto simp: composeUri_def Let_def hosts_loop_join hs auth_part_prefix params_part_query
        split: option.splits)
  have rs: "resolve lt cid credential_first (None, Some cs) (None, credential) =
           Called None (Some (''mongodb://'' @ auth_prefix credential
                @ join_with '','' (dropWhile (\<lambda>s. s = []) (map (host_entry lt) cs))
                @ (case first_database cs of None \<Rightarrow> [] | Some d \<Rightarrow> ''/'' @ d)
                @ query_part (compose_options cs credential)))"
    using cu assms(1) by (simp add: resolve_def Let_def)
  show ?thesis using cu rs by (simp only: map_of_compose_options) simp
qed

theorem composeUri_without_uri_witness:
  "resolve int_text ''123'' False
     (None, Some [\<lparr>getUri = None, getHost = Some ''localhost'', getPort = Some 27017,
        getDatabase = Some ''test'',
        conn_entries = [(''host'', Some ''localhost''), (''port'', Some ''27017''),
                        (''database'', Some ''test'')]\<rparr>])
     (None, None)
   = Called None (Some ''mongodb://localhost:27017/test'')
   \<and> resolve int_text ''123'' False
     (None, Some [\<lparr>getUri = None, getHost = Some ''a'', getPort = Some 27017,
        getDatabase = Some ''test'',
        conn_entries = [(''host'', Some ''a''), (''port'', Some ''27017''),
                        (''database'', Some ''test'')]\<rparr>,
       \<lparr>getUri = None, getHost = Some ''b'', getPort = Some 27018,
        getDatabase = Some ''test'',
        conn_entries = [(''host'', Some ''b''), (''port'', Some ''27018''),
                        (''database'', Some ''test'')]\<rparr>])
     (None, Some \<lparr>getUsername = Some ''u'', getPassword = Some ''p'',
        cred_entries = [(''username'', Some ''u''), (''password'', Some ''p'')]\<rparr>)
   = Called None (Some ''mongodb://u:p@a:27017,b:27018/test'')
   \<and> resolve int_text ''123'' False
     (None, Some [\<lparr>getUri = None, getHost = Some ''a'', getPort = Some 27017,
        getDatabase = Some ''test'',
        conn_entries = [(''host'', Some ''a''), (''port'', Some ''27017''),
                        (''database'', Some ''test''), (''replicaSet'', Some ''rs0'')]\<rparr>,
       \<lparr>getUri = None, getHost = Some ''b'', getPort = Some 27018,
        getDatabase = Some ''test'',
        conn_entries = [(''host'', Some ''b''), (''port'', Some ''27018''),
                        (''database'', Some ''test''), (''ssl'', Some ''true'')]\<rparr>])
     (None, Some \<lparr>getUsername = Some ''u'', getPassword = None,
        cred_entries = [(''username'', Some ''u''), (''authSource'', Some ''admin''),
                        (''ssl'', Some ''false'')]\<rparr>)
   = Called None
       (Some ''mongodb://u@a:27017,b:27018/test?replicaSet=rs0&ssl=false&authSource=admin'')"
proof -
  let ?c1 = "\<lparr>getUri = None, getHost = Some ''localhost'', getPort = Some 27017,
        getDatabase = Some ''test'',
        conn_entries = [(''host'', Some ''localhost''), (''port'', Some ''27017''),
                        (''database'', Some ''test'')]\<rparr>"
  let ?a = "\<lparr>getUri = None, getHost = Some ''a'', getPort = Some 27017,
        getDatabase = Some ''test'',
        conn_entries = [(''host'', Some ''a''), (''port'', Some ''27017''),
                        (''database'', Some ''test'')]\<rparr>"
  let ?b = "\<lparr>getUri = None, getHost = Some ''b'', getPort = Some 27018,
        getDatabase = Some ''test'',
        conn_entries = [(''host'', Some ''b''), (''port'', Some ''27018''),
                        (''database'', Some ''test'')]\<rparr>"
  let ?cr = "\<lparr>getUsername = Some ''u'', getPassword = Some ''p'',
        cred_entries = [(''username'', Some ''u''), (''password'', Some ''p'')]\<rparr>"
  let ?a' = "\<lparr>getUri = None, getHost = Some ''a'', getPort = Some 27017,
        getDatabase = Some ''test'',
        conn_entries = [(''host'', Some ''a''), (''port'', Some ''27017''),
                        (''database'', Some ''test''), (''replicaSet'', Some ''rs0'')]\<rparr>"
  let ?b' = "\<lparr>getUri = None, getHost = Some ''b'', getPort = Some 27018,
        getDatabase = Some ''test'',
        conn_entries = [(''host'', Some ''b''), (''port'', Some ''27018''),
                        (''database'', Some ''test''), (''ssl'', Some ''true'')]\<rparr>"
  let ?cr' = "\<lparr>getUsername = Some ''u'', getPassword = None,
        cred_entries = [(''username'', Some ''u''), (''authSource'', Some ''admin''),
                        (''ssl'', Some ''false'')]\<rparr>"
  have v1: "validateConnections ''123'' (Some [?c1]) = None"
    and v2: "validateConnections ''123'' (Some [?a, ?b]) = None"
    and v3: "validateConnections ''123'' (Some [?a', ?b']) = None"
    by (simp_all add: validateConnections_def validateConnection_def)
  have u1: "\<forall>c\<in>set [?c1]. getUri c = None" and u2: "\<forall>c\<in>set [?a, ?b]. getUri c = None"
    and u3: "\<forall>c\<in>set [?a', ?b']. getUri c = None"
    by simp_all
  have o1: "compose_options [?c1] None = []"
    and o2: "compose_options [?a, ?b] (Some ?cr) = []"
    and o3: "compose_options [?a', ?b'] (Some ?cr')
               = [(''replicaSet'', Some ''rs0''), (''ssl'', Some ''false''),
                  (''authSource'', Some ''admin'')]"
    by (simp_all add: compose_options_def override_def mergeConfigs_def append_map_def
        AList.delete_eq)
  have r1: "resolve int_text ''123'' False (None, Some [?c1]) (None, None)
              = Called None (Some ''mongodb://localhost:27017/test'')"
    using composeUri_without_uri [OF v1 u1, of int_text None False]
    by (simp add: o1 port_texts auth_prefix_def host_entry_def first_database_def truthy_str_def
        query_part_def)
  have r2: "resolve int_text ''123'' False (None, Some [?a, ?b]) (None, Some ?cr)
              = Called None (Some ''mongodb://u:p@a:27017,b:27018/test'')"
    using composeUri_without_uri [OF v2 u2, of int_text "Some ?cr" False]
    by (simp add: o2 port_texts auth_prefix_def host_entry_def first_database_def truthy_str_def
        query_part_def)
  have r3: "resolve int_text ''123'' False (None, Some [?a', ?b']) (None, Some ?cr')
              = Called None
                  (Some ''mongodb://u@a:27017,b:27018/test?replicaSet=rs0&ssl=false&authSource=admin'')"
    using composeUri_without_uri [OF v3 u3, of int_text "Some ?cr'" False]
    by (simp add: o3 port_texts auth_prefix_def host_entry_def first_database_def truthy_str_def
        query_part_def key_value_def)
  show ?thesis using r1 r2 r3 by simp
qed

subsection \<open>The empty uri\<close>

text \<open>
  Claim C10. A descriptor whose uri entry is the empty string does not pass validation
  on that entry: the accessor reads the empty entry as null, so \<open>getUri()\<close> is null and
  the host, port and database checks decide. With host missing, validation fails with
  \<open>NO_HOST\<close> and \<open>resolve\<close> reports that error; an empty uri never reaches the
  truthiness test of the composition.
\<close>

theorem empty_uri_field:
  assumes "reads_its_entries c" and "map_of (conn_entries c) ''uri'' = Some (Some [])"
  shows "getUri c = None
       \<and> validateConnection cid c =
           (if getHost c = None then
              Some (ConfigException cid ''NO_HOST'' ''Connection host is not set'')
            else if getPort c = Some 0 then
              Some (ConfigException cid ''NO_PORT'' ''Connection port is not set'')
            else if getDatabase c = None then
              Some (ConfigException cid ''NO_DATABASE'' ''Connection database is not set'')
            else None)
       \<and> (read_entry (conn_entries c) ''host'' = None
            \<and> read_entry (conn_entries c) ''ip'' = None \<longrightarrow>
            validateConnection cid c =
              Some (ConfigException cid ''NO_HOST'' ''Connection host is not set'')
            \<and> (fst credential_answer = None \<or> \<not> credential_first \<longrightarrow>
                 resolve lt cid credential_first (None, Some (c # others)) credential_answer =
                   Called (Some (ConfigException cid ''NO_HOST'' ''Connection host is not set''))
                     None))"
proof -
  have u: "getUri c = None"
    using assms by (simp add: reads_its_entries_def read_entry_def)
  have h: "read_entry (conn_entries c) ''host'' = None
            \<and> read_entry (conn_entries c) ''ip'' = None \<longrightarrow> getHost c = None"
    using assms(1) by (simp add: reads_its_entries_def)
  show ?thesis using u h
    by (auto simp: validateConnection_def validateConnections_def resolve_def Let_def
        split: option.splits)
qed

theorem empty_uri_field_witness:
  "resolve int_text ''123'' True
     (None, Some [\<lparr>getUri = None, getHost = None, getPort = Some 0, getDatabase = None,
                    conn_entries = [(''uri'', Some []), (''host'', Some [])]\<rparr>,
                  \<lparr>getUri = None, getHost = Some ''b'', getPort = Some 27018,
                    getDatabase = Some ''test'',
                    conn_entries = [(''host'', Some ''b''), (''port'', Some ''27018''),
                                    (''database'', Some ''test'')]\<rparr>])
     (None, Some \<lparr>getUsername = Some ''u'', getPassword = Some ''p'',
                   cred_entries = [(''username'', Some ''u''), (''password'', Some ''p'')]\<rparr>)
   = Called (Some (ConfigException ''123'' ''NO_HOST'' ''Connection host is not set'')) None"
proof -
  let ?c = "\<lparr>getUri = None, getHost = None, getPort = Some 0, getDatabase = None,
                    conn_entries = [(''uri'', Some []), (''host'', Some [])]\<rparr>"
  have r: "reads_its_entries ?c"
    by (simp add: reads_its_entries_def read_entry_def)
  have e: "map_of (conn_entries ?c) ''uri'' = Some (Some [])" by simp
  have n: "read_entry (conn_entries ?c) ''host'' = None"
    "read_entry (conn_entries ?c) ''ip'' = None"
    by (simp_all add: read_entry_def)
  show ?thesis
    using empty_uri_field [OF r e, where cid = "''123''" and lt = int_text
        and credential_first = True
        and credential_answer = "(None, Some \<lparr>getUsername = Some ''u'', getPassword = Some ''p'',
                   cred_entries = [(''username'', Some ''u''), (''password'', Some ''p'')]\<rparr>)"
        and others = "[\<lparr>getUri = None, getHost = Some ''b'', getPort = Some 27018,
                    getDatabase = Some ''test'',
                    conn_entries = [(''host'', Some ''b''), (''port'', Some ''27018''),
                                    (''database'', Some ''test'')]\<rparr>]"]
      n
    by simp
qed

text \<open>
  The descriptor with an empty uri entry and nothing else: the accessors return null,
  null, 0 and null, and \<open>resolve\<close> reports \<open>NO_HOST\<close> where a composed text was
  expected.
\<close>

theorem empty_uri_field_counterexample:
  "reads_its_entries
     \<lparr>getUri = None, getHost = None, getPort = Some 0, getDatabase = None,
      conn_entries = [(''uri'', Some [])]\<rparr>
   \<and> validateConnections ''123''
       (Some [\<lparr>getUri = None, getHost = None, getPort = Some 0, getDatabase = None,
                conn_entries = [(''uri'', Some [])]\<rparr>])
     = Some (ConfigException ''123'' ''NO_HOST'' ''Connection host is not set'')
   \<and> resolve int_text ''123'' False
       (None, Some [\<lparr>getUri = None, getHost = None, getPort = Some 0, getDatabase = None,
                      conn_entries = [(''uri'', Some [])]\<rparr>])
       (None, None)
     = Called (Some (ConfigException ''123'' ''NO_HOST'' ''Connection host is not set'')) None"
  by (simp add: reads_its_entries_def read_entry_def resolve_def validateConnections_def
      validateConnection_def)

section \<open>Properties of the persistence components\<close>

subsection \<open>Paging\<close>

lemma getPageByFilter_unfold:
  "p_model this = Some m \<Longrightarrow>
   getPageByFilter this cid f paging0 so se =
     (case model_exec m (configured_statement this f paging0 so se) of
        (Some err, items) \<Rightarrow>
          (Called (Some err) None, [Exec (configured_statement this f paging0 so se)])
      | (None, items0) \<Rightarrow>
          (if paging_total (paging_or_new paging0) then
             (case model_count m f of
                (Some err, c) \<Rightarrow>
                  (Called (Some err) None,
                   [Exec (configured_statement this f paging0 so se), Count f])
              | (None, c) \<Rightarrow>
                  (Called None (Some \<lparr>page_data = map_convertToPublic items0, page_total = c\<rparr>),
                   [Exec (configured_statement this f paging0 so se), Count f]))
           else
             (Called None (Some \<lparr>page_data = map_convertToPublic items0, page_total = None\<rparr>),
              [Exec (configured_statement this f paging0 so se)])))"
  by (cases paging0)
    (auto simp: getPageByFilter_def configured_statement_def paging_or_new_def Let_def
      split: option.splits prod.splits)

lemma first_statement_getPageByFilter:
  "p_model this = Some m \<Longrightarrow>
   first_statement (snd (getPageByFilter this cid f paging0 so se))
     = Some (configured_statement this f paging0 so se)"
  by (simp add: getPageByFilter_unfold first_statement_def split: prod.splits option.splits)

lemma length_map_convertToPublic:
  "length (map_convertToPublic (Some ds)) = length ds"
  by (simp add: map_convertToPublic_def)

text \<open>
  Claim C4. In every call of \<open>getPageByFilter\<close> the statement handed to the driver has a
  skip clause exactly when the resolved skip is at least 0, and the resolved skip is -1
  when the paging parameters or their skip are absent; it always has a limit clause,
  whose value is the caller's take when there is one and the configured maximum page
  size otherwise. Hence, on a driver that keeps the matching documents after the skipped
  ones up to the limit, 5 matching documents give a page of 2 items with skip 0 and
  take 2, and a page of 1 item with skip 4 and take 2.
\<close>

theorem getPageByFilter_skip_and_limit:
  assumes "p_model this = Some m"
  shows "map_option st_skip (first_statement (snd (getPageByFilter this cid f paging0 so se)))
           = Some (if getSkip (paging_or_new paging0) (- 1) \<ge> 0
                   then Some (getSkip (paging_or_new paging0) (- 1)) else None)
       \<and> (paging0 = None \<or> paging_skip (paging_or_new paging0) = None \<longrightarrow>
            getSkip (paging_or_new paging0) (- 1) = - 1)
       \<and> map_option st_limit (first_statement (snd (getPageByFilter this cid f paging0 so se)))
           = Some (Some (case paging_take (paging_or_new paging0) of
                           Some t \<Rightarrow> t | None \<Rightarrow> maxPageSize this))
       \<and> ((\<forall>stmt. model_exec m stmt = (None, Some (run_statement stmt docs)))
            \<and> (paging_total (paging_or_new paging0) \<longrightarrow> fst (model_count m f) = None)
            \<and> length (filter (matches f) docs) = 5
            \<and> paging_take (paging_or_new paging0) = Some 2 \<longrightarrow>
            (paging_skip (paging_or_new paging0) = Some 0 \<longrightarrow>
               (\<exists>page. fst (getPageByFilter this cid f paging0 so se) = Called None (Some page)
                  \<and> length (page_data page) = 2))
          \<and> (paging_skip (paging_or_new paging0) = Some 4 \<longrightarrow>
               (\<exists>page. fst (getPageByFilter this cid f paging0 so se) = Called None (Some page)
                  \<and> length (page_data page) = 1)))"
proof -
  have a: "first_statement (snd (getPageByFilter this cid f paging0 so se))
             = Some (configured_statement this f paging0 so se)"
    using assms by (rule first_statement_getPageByFilter)
  have b: "st_skip (configured_statement this f paging0 so se)
             = (if getSkip (paging_or_new paging0) (- 1) \<ge> 0
                then Some (getSkip (paging_or_new paging0) (- 1)) else None)"
    by (simp add: configured_statement_def page_statement_def)
  have c: "st_limit (configured_statement this f paging0 so se)
             = Some (case paging_take (paging_or_new paging0) of
                       Some t \<Rightarrow> t | None \<Rightarrow> maxPageSize this)"
    by (simp add: configured_statement_def page_statement_def getTake_def split: option.splits)
  have d: "paging0 = None \<or> paging_skip (paging_or_new paging0) = None \<longrightarrow>
            getSkip (paging_or_new paging0) (- 1) = - 1"
    by (auto simp: getSkip_def paging_or_new_def new_PagingParams_def)
  have e: "(\<forall>stmt. model_exec m stmt = (None, Some (run_statement stmt docs)))
            \<and> (paging_total (paging_or_new paging0) \<longrightarrow> fst (model_count m f) = None)
            \<and> length (filter (matches f) docs) = 5
            \<and> paging_take (paging_or_new paging0) = Some 2 \<longrightarrow>
            (paging_skip (paging_or_new paging0) = Some 0 \<longrightarrow>
               (\<exists>page. fst (getPageByFilter this cid f paging0 so se) = Called None (Some page)
                  \<and> length (page_data page) = 2))
          \<and> (paging_skip (paging_or_new paging0) = Some 4 \<longrightarrow>
               (\<exists>page. fst (getPageByFilter this cid f paging0 so se) = Called None (Some page)
                  \<and> length (page_data page) = 1))"
    using assms
    by (auto simp: getPageByFilter_unfold length_map_convertToPublic run_statement_def
        configured_statement_def page_statement_def getSkip_def getTake_def Let_def
        split: prod.splits)
  show ?thesis using a b c d e by simp
qed

lemma key_a_matches:
  "filter (matches (JObj [(''key'', JStr ''a'')])) six_dummies =
     [dummy ''1'' ''a'', dummy ''2'' ''a'', dummy ''4'' ''a'', dummy ''5'' ''a'', dummy ''6'' ''a'']"
  by (simp add: six_dummies_def matches_def dummy_def)

theorem getPageByFilter_skip_and_limit_witness:
  "map_option st_skip (first_statement (snd
      (getPageByFilter (dummies (store_driver six_dummies)) ''123'' (JObj [(''key'', JStr ''a'')])
         None JNull JNull))) = Some None
   \<and> map_option st_limit (first_statement (snd
      (getPageByFilter (dummies (store_driver six_dummies)) ''123'' (JObj [(''key'', JStr ''a'')])
         None JNull JNull))) = Some (Some 100)
   \<and> (\<exists>page. fst (getPageByFilter (dummies (store_driver six_dummies)) ''123''
                  (JObj [(''key'', JStr ''a'')])
                  (Some \<lparr>paging_skip = Some 0, paging_take = Some 2, paging_total = False\<rparr>)
                  JNull JNull) = Called None (Some page)
          \<and> length (page_data page) = 2)
   \<and> (\<exists>page. fst (getPageByFilter (dummies (store_driver six_dummies)) ''123''
                  (JObj [(''key'', JStr ''a'')])
                  (Some \<lparr>paging_skip = Some 4, paging_take = Some 2, paging_total = False\<rparr>)
                  JNull JNull) = Called None (Some page)
          \<and> length (page_data page) = 1)"
proof -
  let ?p = "dummies (store_driver six_dummies)"
  let ?f = "JObj [(''key'', JStr ''a'')]"
  have m: "p_model ?p = Some (store_driver six_dummies)" by (simp add: dummies_def)
  have ex: "\<forall>stmt. model_exec (store_driver six_dummies) stmt
              = (None, Some (run_statement stmt six_dummies))"
    by (simp add: store_driver_def)
  have five: "length (filter (matches ?f) six_dummies) = 5"
    by (simp add: key_a_matches)
  show ?thesis
    using getPageByFilter_skip_and_limit [OF m, of "''123''" ?f None JNull JNull six_dummies]
      getPageByFilter_skip_and_limit [OF m, of "''123''" ?f
        "Some \<lparr>paging_skip = Some 0, paging_take = Some 2, paging_total = False\<rparr>"
        JNull JNull six_dummies]
      getPageByFilter_skip_and_limit [OF m, of "''123''" ?f
        "Some \<lparr>paging_skip = Some 4, paging_take = Some 2, paging_total = False\<rparr>"
        JNull JNull six_dummies]
      ex five
    by (simp add: paging_or_new_def new_PagingParams_def getSkip_def dummies_def)
qed

text \<open>
  Claim C5. When \<open>paging.total\<close> is true, \<open>getPageByFilter\<close> issues a count over the
  same filter after the page query has answered without error, and the page carries
  the count as its total; when the count fails, the operation fails with that error and
  returns no items; when the page query fails, no count is issued; when
  \<open>paging.total\<close> is false, no count is issued and the page has no total.
\<close>

theorem getPageByFilter_total:
  assumes "p_model this = Some m"
  shows "(model_exec m (configured_statement this f paging0 so se) = (Some e, items) \<longrightarrow>
            getPageByFilter this cid f paging0 so se =
              (Called (Some e) None, [Exec (configured_statement this f paging0 so se)]))
       \<and> (model_exec m (configured_statement this f paging0 so se) = (None, items)
            \<and> paging_total (paging_or_new paging0) \<and> model_count m f = (None, c) \<longrightarrow>
            getPageByFilter this cid f paging0 so se =
              (Called None (Some \<lparr>page_data = map_convertToPublic items, page_total = c\<rparr>),
               [Exec (configured_statement this f paging0 so se), Count f]))
       \<and> (model_exec m (configured_statement this f paging0 so se) = (None, items)
            \<and> paging_total (paging_or_new paging0) \<and> model_count m f = (Some e, c) \<longrightarrow>
            getPageByFilter this cid f paging0 so se =
              (Called (Some e) None, [Exec (configured_statement this f paging0 so se), Count f]))
       \<and> (model_exec m (configured_statement this f paging0 so se) = (None, items)
            \<and> \<not> paging_total (paging_or_new paging0) \<longrightarrow>
            getPageByFilter this cid f paging0 so se =
              (Called None (Some \<lparr>page_data = map_convertToPublic items, page_total = None\<rparr>),
               [Exec (configured_statement this f paging0 so se)]))
       \<and> st_filter (configured_statement this f paging0 so se) = f"
  using assms
  by (simp add: getPageByFilter_unfold) (simp add: configured_statement_def page_statement_def)

theorem getPageByFilter_total_witness:
  "getPageByFilter (dummies (store_driver six_dummies)) ''123'' (JObj [(''key'', JStr ''a'')])
     (Some \<lparr>paging_skip = Some 4, paging_take = Some 2, paging_total = True\<rparr>) JNull JNull
   = (Called None (Some \<lparr>page_data = [Some (dummy ''6'' ''a'')], page_total = Some 5\<rparr>),
      [Exec \<lparr>st_filter = JObj [(''key'', JStr ''a'')], st_skip = Some 4, st_limit = Some 2,
              st_sort = None, st_select = None\<rparr>,
       Count (JObj [(''key'', JStr ''a'')])])
   \<and> getPageByFilter (dummies (store_driver six_dummies)) ''123'' (JObj [(''key'', JStr ''a'')])
     (Some \<lparr>paging_skip = Some 4, paging_take = Some 2, paging_total = False\<rparr>) JNull JNull
   = (Called None (Some \<lparr>page_data = [Some (dummy ''6'' ''a'')], page_total = None\<rparr>),
      [Exec \<lparr>st_filter = JObj [(''key'', JStr ''a'')], st_skip = Some 4, st_limit = Some 2,
              st_sort = None, st_select = None\<rparr>])
   \<and> getPageByFilter
       (dummies ((store_driver six_dummies)
          \<lparr>model_count := (\<lambda>f. (Some (DriverError ''count failed''), None))\<rparr>))
       ''123'' (JObj [(''key'', JStr ''a'')])
       (Some \<lparr>paging_skip = Some 4, paging_take = Some 2, paging_total = True\<rparr>) JNull JNull
   = (Called (Some (DriverError ''count failed'')) None,
      [Exec \<lparr>st_filter = JObj [(''key'', JStr ''a'')], st_skip = Some 4, st_limit = Some 2,
              st_sort = None, st_select = None\<rparr>,
       Count (JObj [(''key'', JStr ''a'')])])
   \<and> getPageByFilter (dummies failing_driver) ''123'' (JObj [(''key'', JStr ''a'')])
       (Some \<lparr>paging_skip = Some 4, paging_take = Some 2, paging_total = True\<rparr>) JNull JNull
   = (Called (Some (DriverError ''not connected'')) None,
      [Exec \<lparr>st_filter = JObj [(''key'', JStr ''a'')], st_skip = Some 4, st_limit = Some 2,
              st_sort = None, st_select = None\<rparr>])"
proof -
  let ?f = "JObj [(''key'', JStr ''a'')]"
  let ?m = "store_driver six_dummies"
  let ?m' = "(store_driver six_dummies)
          \<lparr>model_count := (\<lambda>f. (Some (DriverError ''count failed''), None))\<rparr>"
  let ?pt = "Some \<lparr>paging_skip = Some 4, paging_take = Some 2, paging_total = True\<rparr>"
  let ?pf = "Some \<lparr>paging_skip = Some 4, paging_take = Some 2, paging_total = False\<rparr>"
  have st: "configured_statement (dummies d) ?f (Some \<lparr>paging_skip = Some 4, paging_take = Some 2,
               paging_total = t\<rparr>) JNull JNull
            = \<lparr>st_filter = ?f, st_skip = Some 4, st_limit = Some 2, st_sort = None, st_select = None\<rparr>"
    for d t
    by (simp add: configured_statement_def page_statement_def paging_or_new_def getSkip_def
        getTake_def)
  have run: "run_statement \<lparr>st_filter = ?f, st_skip = Some 4, st_limit = Some 2, st_sort = None,
                st_select = None\<rparr> six_dummies = [dummy ''6'' ''a'']"
    by (simp add: run_statement_def key_a_matches)
  have conv: "map_convertToPublic (Some [dummy ''6'' ''a'']) = [Some (dummy ''6'' ''a'')]"
    by (simp add: map_convertToPublic_def convertToPublic_def dummy_def)
  have cnt: "model_count ?m ?f = (None, Some 5)"
    by (simp add: store_driver_def key_a_matches)
  have m1: "p_model (dummies ?m) = Some ?m" and m2: "p_model (dummies ?m') = Some ?m'"
    and m3: "p_model (dummies failing_driver) = Some failing_driver"
    by (simp_all add: dummies_def)
  have ex: "model_exec ?m stmt = (None, Some (run_statement stmt six_dummies))"
    and ex': "model_exec ?m' stmt = (None, Some (run_statement stmt six_dummies))" for stmt
    by (simp_all add: store_driver_def)
  have cnt': "model_count ?m' ?f = (Some (DriverError ''count failed''), None)"
    by simp
  have fl: "model_exec failing_driver stmt = (Some (DriverError ''not connected''), None)" for stmt
    by (simp add: failing_driver_def)
  have r1: "getPageByFilter (dummies ?m) ''123'' ?f ?pt JNull JNull
     = (Called None (Some \<lparr>page_data = [Some (dummy ''6'' ''a'')], page_total = Some 5\<rparr>),
      [Exec \<lparr>st_filter = ?f, st_skip = Some 4, st_limit = Some 2,
              st_sort = None, st_select = None\<rparr>, Count ?f])"
    using getPageByFilter_total [OF m1, where f = ?f and ?paging0.0 = ?pt and so = JNull
         and se = JNull and items = "Some [dummy ''6'' ''a'']" and c = "Some 5" and cid = "''123''"]
    by (simp add: st run conv cnt ex paging_or_new_def)
  have r2: "getPageByFilter (dummies ?m) ''123'' ?f ?pf JNull JNull
     = (Called None (Some \<lparr>page_data = [Some (dummy ''6'' ''a'')], page_total = None\<rparr>),
      [Exec \<lparr>st_filter = ?f, st_skip = Some 4, st_limit = Some 2,
              st_sort = None, st_select = None\<rparr>])"
    using getPageByFilter_total [OF m1, where f = ?f and ?paging0.0 = ?pf and so = JNull
         and se = JNull and items = "Some [dummy ''6'' ''a'']" and cid = "''123''"]
    by (simp add: st run conv ex paging_or_new_def)
  have r3: "getPageByFilter (dummies ?m') ''123'' ?f ?pt JNull JNull
     = (Called (Some (DriverError ''count failed'')) None,
      [Exec \<lparr>st_filter = ?f, st_skip = Some 4, st_limit = Some 2,
              st_sort = None, st_select = None\<rparr>, Count ?f])"
    using getPageByFilter_total [OF m2, where f = ?f and ?paging0.0 = ?pt and so = JNull
         and se = JNull and e = "DriverError ''count failed''"
         and items = "Some [dummy ''6'' ''a'']" and c = None and cid = "''123''"]
    by (simp add: st run ex ex' cnt' paging_or_new_def)
  have r4: "getPageByFilter (dummies failing_driver) ''123'' ?f ?pt JNull JNull
     = (Called (Some (DriverError ''not connected'')) None,
      [Exec \<lparr>st_filter = ?f, st_skip = Some 4, st_limit = Some 2,
              st_sort = None, st_select = None\<rparr>])"
    using getPageByFilter_total [OF m3, where f = ?f and ?paging0.0 = ?pt and so = JNull
         and se = JNull and e = "DriverError ''not connected''" and items = None
         and cid = "''123''"]
    by (simp add: st fl)
  show ?thesis using r1 r2 r3 r4 by simp
qed

lemma map_of_assign_id:
  "map_of (assign_id it g) k =
     (if k = ''_id'' then Some (js_or (map_of it ''id'') g)
      else if k = ''id'' then None else map_of it k)"
  by (simp add: assign_id_def convertFromPublic_def update_conv' delete_conv')

subsection \<open>Writing\<close>

text \<open>
  Claim C6. For a non-null entity, \<open>create\<close> and \<open>set\<close> hand the driver the document
  obtained by removing the field \<open>id\<close> and then assigning \<open>_id\<close>: the entity's id when
  it is a string that is not empty, the key of the id generator when the id is absent,
  null or the empty string (in general, the id when it is truthy and the generated key
  otherwise). The stored document has no field \<open>id\<close> and keeps every other field;
  \<open>set\<close> looks the document up by the same key.
\<close>

theorem create_set_id_assignment:
  assumes "p_model this = Some m"
  shows "snd (create this cid (Some it) cb g) = [Create (JObj (assign_id it g))]
       \<and> snd (set_item this cid (Some it) cb g) =
           [FindOneAndUpdate (JObj [(''_id'', property_of (assign_id it g) ''_id'')])
              (JObj (assign_id it g)) (JObj [(''new'', JBool True), (''upsert'', JBool True)])]
       \<and> map_of (assign_id it g) ''id'' = None
       \<and> (\<forall>k. k \<noteq> ''id'' \<and> k \<noteq> ''_id'' \<longrightarrow> map_of (assign_id it g) k = map_of it k)
       \<and> (\<forall>s. map_of it ''id'' = Some (JStr s) \<and> s \<noteq> [] \<longrightarrow>
              map_of (assign_id it g) ''_id'' = Some (JStr s)
              \<and> property_of (assign_id it g) ''_id'' = JStr s)
       \<and> (map_of it ''id'' = None \<or> map_of it ''id'' = Some JNull
            \<or> map_of it ''id'' = Some (JStr []) \<longrightarrow>
              map_of (assign_id it g) ''_id'' = Some g
              \<and> property_of (assign_id it g) ''_id'' = g)
       \<and> (\<forall>v. map_of it ''id'' = Some v \<longrightarrow>
              property_of (assign_id it g) ''_id'' = (if truthy v then v else g))"
  using assms
  by (auto simp: create_def set_item_def Let_def map_of_assign_id property_of_def js_or_def
      split: prod.splits option.splits)

theorem create_set_id_assignment_witness:
  "snd (create (dummies failing_driver) ''123''
          (Some [(''id'', JStr ''1''), (''key'', JStr ''a'')]) True (JStr ''generated''))
     = [Create (JObj [(''key'', JStr ''a''), (''_id'', JStr ''1'')])]
   \<and> snd (create (dummies failing_driver) ''123''
          (Some [(''id'', JStr []), (''key'', JStr ''a'')]) True (JStr ''generated''))
     = [Create (JObj [(''key'', JStr ''a''), (''_id'', JStr ''generated'')])]
   \<and> snd (set_item (dummies failing_driver) ''123''
          (Some [(''id'', JStr ''1''), (''key'', JStr ''a'')]) True (JStr ''generated''))
     = [FindOneAndUpdate (JObj [(''_id'', JStr ''1'')])
          (JObj [(''key'', JStr ''a''), (''_id'', JStr ''1'')])
          (JObj [(''new'', JBool True), (''upsert'', JBool True)])]
   \<and> snd (set_item (dummies failing_driver) ''123''
          (Some [(''key'', JStr ''a'')]) True (JStr ''generated''))
     = [FindOneAndUpdate (JObj [(''_id'', JStr ''generated'')])
          (JObj [(''key'', JStr ''a''), (''_id'', JStr ''generated'')])
          (JObj [(''new'', JBool True), (''upsert'', JBool True)])]"
proof -
  have m: "p_model (dummies failing_driver) = Some failing_driver" by (simp add: dummies_def)
  have a1: "assign_id [(''id'', JStr ''1''), (''key'', JStr ''a'')] (JStr ''generated'')
              = [(''key'', JStr ''a''), (''_id'', JStr ''1'')]"
    and a2: "assign_id [(''id'', JStr []), (''key'', JStr ''a'')] (JStr ''generated'')
              = [(''key'', JStr ''a''), (''_id'', JStr ''generated'')]"
    and a3: "assign_id [(''key'', JStr ''a'')] (JStr ''generated'')
              = [(''key'', JStr ''a''), (''_id'', JStr ''generated'')]"
    by (simp_all add: assign_id_def convertFromPublic_def js_or_def AList.delete_eq)
  show ?thesis
    using create_set_id_assignment [OF m, where cid = "''123''" and cb = True
        and g = "JStr ''generated''" and it = "[(''id'', JStr ''1''), (''key'', JStr ''a'')]"]
      create_set_id_assignment [OF m, where cid = "''123''" and cb = True
        and g = "JStr ''generated''" and it = "[(''id'', JStr []), (''key'', JStr ''a'')]"]
      create_set_id_assignment [OF m, where cid = "''123''" and cb = True
        and g = "JStr ''generated''" and it = "[(''key'', JStr ''a'')]"]
    by (simp add: a1 a2 a3 property_of_def)
qed



subsection \<open>The conversion hooks\<close>

text \<open>
  Claim C8. The default \<open>convertToPublic\<close> returns \<open>value.toJSON()\<close> when the value is
  not null and has a \<open>toJSON\<close> method, and the value itself otherwise; the default
  \<open>convertFromPublic\<close> returns its argument. Neither renames a field: what
  \<open>getOneById\<close>, \<open>getPageByFilter\<close>, \<open>create\<close> and \<open>deleteById\<close> hand to the
  callback is the driver's document as its own \<open>toJSON\<close> writes it, so the key appears
  under \<open>id\<close> when that \<open>toJSON\<close> moves it there.
\<close>

theorem convertToPublic_delegates:
  "convertToPublic None = None
   \<and> (toJSON d = None \<longrightarrow> convertToPublic (Some d) = Some d)
   \<and> (toJSON d = Some f \<longrightarrow>
        convertToPublic (Some d) = Some \<lparr>doc_fields = f (doc_fields d), toJSON = None\<rparr>)
   \<and> convertFromPublic v = v
   \<and> (p_model this = Some m \<longrightarrow>
        fst (getOneById this cid i)
          = Called (fst (model_findById m i)) (convertToPublic (snd (model_findById m i))))
   \<and> (p_model this = Some m
        \<and> model_exec m (configured_statement this flt paging0 so se) = (None, Some ds)
        \<and> \<not> paging_total (paging_or_new paging0) \<longrightarrow>
        fst (getPageByFilter this cid flt paging0 so se)
          = Called None (Some \<lparr>page_data = map (\<lambda>x. convertToPublic (Some x)) ds,
                                 page_total = None\<rparr>))
   \<and> (p_model this = Some m \<and> model_create m (JObj (assign_id it g)) = (None, Some d) \<longrightarrow>
        fst (create this cid (Some it) True g) = Called None (convertToPublic (Some d)))
   \<and> (p_model this = Some m \<longrightarrow>
        fst (deleteById this cid i True)
          = Called (fst (model_findByIdAndRemove m i))
              (convertToPublic (snd (model_findByIdAndRemove m i))))"
  by (auto simp: convertToPublic_def convertFromPublic_def create_def Let_def getOneById_def
      deleteById_def getPageByFilter_unfold map_convertToPublic_def split: prod.splits)

theorem convertToPublic_delegates_witness:
  "convertToPublic (Some \<lparr>doc_fields = [(''_id'', JStr ''1''), (''key'', JStr ''a'')],
                           toJSON = Some rename_id\<rparr>)
     = Some \<lparr>doc_fields = [(''id'', JStr ''1''), (''key'', JStr ''a'')], toJSON = None\<rparr>
   \<and> fst (create (dummies (store_driver [])) ''123''
        (Some [(''id'', JStr ''1''), (''key'', JStr ''a'')]) True (JStr ''generated''))
     = Called None (Some \<lparr>doc_fields = [(''key'', JStr ''a''), (''_id'', JStr ''1'')],
                           toJSON = None\<rparr>)"
proof -
  let ?d = "\<lparr>doc_fields = [(''_id'', JStr ''1''), (''key'', JStr ''a'')], toJSON = Some rename_id\<rparr>"
  let ?s = "\<lparr>doc_fields = [(''key'', JStr ''a''), (''_id'', JStr ''1'')], toJSON = None\<rparr>"
  let ?it = "[(''id'', JStr ''1''), (''key'', JStr ''a'')]"
  have m: "p_model (dummies (store_driver [])) = Some (store_driver [])"
    by (simp add: dummies_def)
  have a: "assign_id ?it (JStr ''generated'') = [(''key'', JStr ''a''), (''_id'', JStr ''1'')]"
    by (simp add: assign_id_def convertFromPublic_def js_or_def AList.delete_eq)
  have c: "model_create (store_driver []) (JObj (assign_id ?it (JStr ''generated'')))
             = (None, Some ?s)"
    by (simp add: a store_driver_def fields_of_def)
  have r: "rename_id [(''_id'', JStr ''1''), (''key'', JStr ''a'')]
             = [(''id'', JStr ''1''), (''key'', JStr ''a'')]"
    by (simp add: rename_id_def AList.delete_eq)
  have 1: "convertToPublic (Some ?d)
             = Some \<lparr>doc_fields = [(''id'', JStr ''1''), (''key'', JStr ''a'')], toJSON = None\<rparr>"
    using convertToPublic_delegates [where d = ?d and f = rename_id] by (simp add: r)
  have 2: "fst (create (dummies (store_driver [])) ''123'' (Some ?it) True (JStr ''generated''))
             = Called None (Some ?s)"
    using convertToPublic_delegates [where d = ?s and this = "dummies (store_driver [])"
        and m = "store_driver []" and it = ?it and g = "JStr ''generated''" and cid = "''123''"]
      m c
    by simp
  show ?thesis using 1 2 by simp
qed

text \<open>
  A document without a renaming \<open>toJSON\<close> leaves the hook as it entered: its key is
  still under \<open>_id\<close> and there is no \<open>id\<close>, also in what \<open>create\<close> returns.
\<close>

theorem convertToPublic_counterexample:
  "convertToPublic (Some \<lparr>doc_fields = [(''_id'', JStr ''1''), (''key'', JStr ''a'')],
                           toJSON = None\<rparr>)
     = Some \<lparr>doc_fields = [(''_id'', JStr ''1''), (''key'', JStr ''a'')], toJSON = None\<rparr>
   \<and> map_of [(''_id'', JStr ''1''), (''key'', JStr ''a'')] ''id'' = None
   \<and> fst (create (dummies (store_driver [])) ''123''
        (Some [(''id'', JStr ''1''), (''key'', JStr ''a'')]) True (JStr ''generated''))
     = Called None (Some \<lparr>doc_fields = [(''key'', JStr ''a''), (''_id'', JStr ''1'')],
                           toJSON = None\<rparr>)"
  by (simp add: convertToPublic_def create_def dummies_def store_driver_def fields_of_def
      assign_id_def convertFromPublic_def js_or_def AList.delete_eq Let_def)

subsection \<open>Clearing\<close>

text \<open>
  Claim C9. Without a collection name \<open>clear\<close> reports the error
  \<open>Collection name is not defined\<close> and calls nothing on the driver. With a collection
  whose model is bound it issues one \<open>remove\<close> with the empty filter, which every
  document matches; a failure of the driver is reported as a connection error with the
  code \<open>CONNECT_FAILED\<close> that carries the driver's error as its cause.
\<close>

theorem clear_behaviour:
  "(p_collection this = None \<longrightarrow>
      clear this cid cb =
        (if cb then Called (Some (Error ''Collection name is not defined'')) None else NotCalled, []))
   \<and> (p_collection this \<noteq> None \<and> p_model this = Some m \<longrightarrow>
        snd (clear this cid cb) = [Remove (JObj [])]
        \<and> filter (\<lambda>d. \<not> matches (JObj []) d) docs = []
        \<and> (fst (model_remove m (JObj [])) = None \<longrightarrow>
             fst (clear this cid cb) = (if cb then Called None None else NotCalled))
        \<and> (fst (model_remove m (JObj [])) = Some e \<longrightarrow>
             fst (clear this cid cb) =
               (if cb then
                  Called (Some (ConnectionException cid ''CONNECT_FAILED''
                            ''Connection to mongodb failed'' (Some e))) None
                else NotCalled)))"
  by (auto simp: clear_def matches_def Let_def)

theorem clear_behaviour_witness:
  "clear \<lparr>p_collection = None, p_model = None, maxPageSize = 100\<rparr> ''123'' True
     = (Called (Some (Error ''Collection name is not defined'')) None, [])
   \<and> clear (dummies (store_driver six_dummies)) ''123'' True
     = (Called None None, [Remove (JObj [])])
   \<and> clear (dummies failing_driver) ''123'' True
     = (Called (Some (ConnectionException ''123'' ''CONNECT_FAILED''
                        ''Connection to mongodb failed''
                        (Some (DriverError ''not connected'')))) None,
        [Remove (JObj [])])"
proof -
  let ?none = "\<lparr>p_collection = None, p_model = None, maxPageSize = 100\<rparr>"
  have 1: "clear ?none ''123'' True
     = (Called (Some (Error ''Collection name is not defined'')) None, [])"
    using clear_behaviour [where this = ?none and cid = "''123''" and cb = True] by simp
  have 2: "clear (dummies (store_driver six_dummies)) ''123'' True
     = (Called None None, [Remove (JObj [])])"
    using clear_behaviour [where this = "dummies (store_driver six_dummies)" and cid = "''123''"
        and cb = True and m = "store_driver six_dummies"]
    by (simp add: dummies_def store_driver_def prod_eq_iff)
  have 3: "clear (dummies failing_driver) ''123'' True
     = (Called (Some (ConnectionException ''123'' ''CONNECT_FAILED''
                        ''Connection to mongodb failed''
                        (Some (DriverError ''not connected'')))) None,
        [Remove (JObj [])])"
    using clear_behaviour [where this = "dummies failing_driver" and cid = "''123''"
        and cb = True and m = failing_driver and e = "DriverError ''not connected''"]
    by (simp add: dummies_def failing_driver_def prod_eq_iff)
  show ?thesis using 1 2 3 by simp
qed

text \<open>
  A component built with a collection name and no schema has no model: there \<open>clear\<close>
  removes nothing and calls nothing back, it throws on reading \<open>this._model.remove\<close>.
\<close>

theorem clear_behaviour_counterexample:
  "clear \<lparr>p_collection = Some ''dummies'', p_model = None, maxPageSize = 100\<rparr> ''123'' True
     = (Thrown TypeError, [])"
  by (simp add: clear_def)


end
